theory Spec2Isabelle
  imports Complex_Main "HOL-Library.AList"
begin

section \<open>Strings\<close>

text \<open>
  A JavaScript string is modelled as a \<open>string\<close>: a list of 8-bit characters, read as
  the code units U+0000 .. U+00FF. This covers every string of the seed catalogue
  (which has three Latin-1 letters) and every user name the validator accepts.
  \<open>length\<close> is the source's \<open>.length\<close>.
\<close>

definition isUpper :: "char \<Rightarrow> bool" where
  \<comment> \<open>the characters \<open>toLowerCase\<close> changes: A-Z and the Latin-1 capitals (not the
      multiplication sign U+00D7)\<close>
  "isUpper c =
     (let n = (of_char c :: nat)
      in (65 \<le> n \<and> n \<le> 90) \<or> (192 \<le> n \<and> n \<le> 222 \<and> n \<noteq> 215))"

fun toLowerCase_char :: "char \<Rightarrow> char" where
  \<comment> \<open>the lower-case letter is 32 code points above: bit 5 is set\<close>
  "toLowerCase_char (Char b0 b1 b2 b3 b4 b5 b6 b7) =
     (if isUpper (Char b0 b1 b2 b3 b4 b5 b6 b7) then Char b0 b1 b2 b3 b4 True b6 b7
      else Char b0 b1 b2 b3 b4 b5 b6 b7)"

definition toLowerCase :: "string \<Rightarrow> string" where
  "toLowerCase s = map toLowerCase_char s"

fun startsWith :: "string \<Rightarrow> string \<Rightarrow> bool" where
  "startsWith s [] = True"
| "startsWith [] (n # ns) = False"
| "startsWith (c # cs) (n # ns) = (c = n \<and> startsWith cs ns)"

fun str_includes :: "string \<Rightarrow> string \<Rightarrow> bool" where
  \<comment> \<open>\<open>s.includes(n)\<close>: \<open>n\<close> occurs in \<open>s\<close> at some position\<close>
  "str_includes [] n = (n = [])"
| "str_includes (c # cs) n = (startsWith (c # cs) n \<or> str_includes cs n)"

definition isWhiteSpace :: "char \<Rightarrow> bool" where
  \<comment> \<open>the white space and line terminators of ECMAScript below U+0100\<close>
  "isWhiteSpace c = ((of_char c :: nat) \<in> {9, 10, 11, 12, 13, 32, 160})"

definition trim :: "string \<Rightarrow> string" where
  "trim s = rev (dropWhile isWhiteSpace (rev (dropWhile isWhiteSpace s)))"

definition isWordChar :: "char \<Rightarrow> bool" where
  \<comment> \<open>the character class \<open>[a-zA-Z0-9_]\<close>\<close>
  "isWordChar c =
     (let n = (of_char c :: nat)
      in (97 \<le> n \<and> n \<le> 122) \<or> (65 \<le> n \<and> n \<le> 90) \<or> (48 \<le> n \<and> n \<le> 57) \<or> n = 95)"

section \<open>JavaScript objects used as dictionaries\<close>

text \<open>
  \<open>books\<close>, every \<open>reviews\<close> and the \<open>results\<close> of a search are plain objects
  created by \<open>{}\<close>. Such an object is modelled by the association list of its own
  properties. Reading \<open>o[k]\<close> looks at the own properties first and then at
  \<open>Object.prototype\<close>, whose properties are all truthy (functions, and the
  prototype object itself for the accessor \<open>__proto__\<close>). Writing \<open>o[k] = v\<close> creates
  or overwrites an own property, except for the key \<open>__proto__\<close> where the
  inherited setter runs instead: it stores nothing (for a string \<open>v\<close> it does nothing at
  all). \<open>delete o[k]\<close> removes an own property and is a no-op otherwise.

  The list keeps the own properties in the order of their creation. JavaScript
  enumerates the integer-like keys first, in ascending order, and the other keys in the
  order of creation; the keys of the seed catalogue are created in ascending order, so
  for the catalogue the two orders agree. For a \<open>reviews\<close> object the list is read as
  the set of its entries: nothing here depends on their order.
\<close>

type_synonym 'v obj = "(string \<times> 'v) list"

definition object_prototype_keys :: "string list" where
  "object_prototype_keys =
     [''constructor'', ''__defineGetter__'', ''__defineSetter__'', ''hasOwnProperty'',
      ''__lookupGetter__'', ''__lookupSetter__'', ''isPrototypeOf'',
      ''propertyIsEnumerable'', ''toString'', ''valueOf'', ''__proto__'',
      ''toLocaleString'']"

datatype 'v lookup = Own 'v | Inherited | Undefined

definition obj_get :: "'v obj \<Rightarrow> string \<Rightarrow> 'v lookup" where
  "obj_get ob k =
     (case map_of ob k of
        Some v \<Rightarrow> Own v
      | None \<Rightarrow> if k \<in> set object_prototype_keys then Inherited else Undefined)"

definition obj_set :: "'v obj \<Rightarrow> string \<Rightarrow> 'v \<Rightarrow> 'v obj" where
  "obj_set ob k v =
     (if k = ''__proto__'' \<and> map_of ob k = None then ob else AList.update k v ob)"

definition obj_delete :: "'v obj \<Rightarrow> string \<Rightarrow> 'v obj" where
  "obj_delete ob k = AList.delete k ob"

definition obj_keys :: "'v obj \<Rightarrow> string list" where
  \<comment> \<open>the own keys, as many as \<open>Object.keys(o)\<close> returns\<close>
  "obj_keys ob = map fst ob"

section \<open>The catalogue (booksdb.js)\<close>

record book =
  author :: string
  title :: string
  reviews :: "string obj"
  genre :: "string list"
  year :: int
  rating :: real

type_synonym catalog = "book obj"

definition mk_book :: "string \<Rightarrow> string \<Rightarrow> string list \<Rightarrow> int \<Rightarrow> real \<Rightarrow> book" where
  "mk_book a t g y r =
     \<lparr>author = a, title = t, reviews = [], genre = g, year = y, rating = r\<rparr>"

definition initial_books :: catalog where
  \<comment> \<open>the object literal \<open>books\<close>; its keys are the strings \<open>"1"\<close> .. \<open>"10"\<close>\<close>
  "initial_books =
     [(''1'', mk_book ''Chinua Achebe'' ''Things Fall Apart''
               [''Fiction'', ''Historical''] 1958 4.5),
      (''2'', mk_book ''Hans Christian Andersen'' ''Fairy tales''
               [''Fantasy'', ''Children''] 1837 4.3),
      (''3'', mk_book ''Dante Alighieri'' ''The Divine Comedy''
               [''Epic Poetry'', ''Classic''] 1320 4.7),
      (''4'', mk_book ''Unknown'' ''The Epic Of Gilgamesh''
               [''Epic Poetry'', ''Ancient''] (- 2100) 4.2),
      (''5'', mk_book ''Unknown'' ''The Book Of Job''
               [''Religious'', ''Philosophy''] (- 600) 4.4),
      (''6'', mk_book ''Unknown'' ''One Thousand and One Nights''
               [''Folklore'', ''Fantasy''] 800 4.6),
      (''7'', mk_book ''Unknown'' (''Nj'' @ [CHR 0xE1] @ ''l'' @ [CHR 0x27] @ ''s Saga'')
               [''Saga'', ''Historical''] 1280 4.1),
      (''8'', mk_book ''Jane Austen'' ''Pride and Prejudice''
               [''Romance'', ''Classic''] 1813 4.8),
      (''9'', mk_book (''Honor'' @ [CHR 0xE9] @ '' de Balzac'')
               (''Le P'' @ [CHR 0xE8] @ ''re Goriot'')
               [''Realism'', ''Fiction''] 1835 4.0),
      (''10'', mk_book ''Samuel Beckett''
               ''Molloy, Malone Dies, The Unnamable, the trilogy''
               [''Modernist'', ''Philosophical''] 1951 4.2)]"

text \<open>
  Every operation of the store returns a promise that a timer callback settles. The
  callback either resolves it, rejects it with an \<open>Error\<close> (modelled by its message), or
  throws: an exception thrown inside a timer callback is caught by nobody, the promise
  never settles and the Node process ends.
\<close>

datatype 'a settled = Resolved 'a | Rejected string | Uncaught string

definition book_not_found :: "string \<Rightarrow> string" where
  "book_not_found isbn = ''Book with ISBN '' @ isbn @ '' not found''"

definition no_review_found :: "string \<Rightarrow> string" where
  "no_review_found username = ''No review found for user '' @ username"

definition type_error :: string where
  "type_error = ''TypeError''"

definition getAllBooks :: "catalog \<Rightarrow> catalog" where
  "getAllBooks bs = bs"

definition getBookByISBN :: "catalog \<Rightarrow> string \<Rightarrow> book lookup settled" where
  \<comment> \<open>an inherited property is truthy and is what the promise resolves with\<close>
  "getBookByISBN bs isbn =
     (case obj_get bs isbn of
        Undefined \<Rightarrow> Rejected (book_not_found isbn)
      | found \<Rightarrow> Resolved found)"

fun search_loop :: "(book \<Rightarrow> string) \<Rightarrow> catalog \<Rightarrow> string \<Rightarrow> catalog \<Rightarrow> catalog" where
  \<comment> \<open>the body of \<open>for (const isbn in books)\<close>, over the entries still to visit\<close>
  "search_loop sel [] s results = results"
| "search_loop sel ((isbn, b) # rest) s results =
     search_loop sel rest s
       (if str_includes (toLowerCase (sel b)) (toLowerCase s)
        then obj_set results isbn b else results)"

definition searchByAuthor :: "catalog \<Rightarrow> string \<Rightarrow> catalog" where
  \<comment> \<open>the promise always resolves; this is the object it resolves with\<close>
  "searchByAuthor bs a = search_loop author bs a []"

definition searchByTitle :: "catalog \<Rightarrow> string \<Rightarrow> catalog" where
  "searchByTitle bs t = search_loop title bs t []"

definition addReview :: "catalog \<Rightarrow> string \<Rightarrow> string \<Rightarrow> string \<Rightarrow> book settled \<times> catalog" where
  \<comment> \<open>for an inherited \<open>books[isbn]\<close> the field \<open>reviews\<close> is undefined and the
      assignment to its property throws\<close>
  "addReview bs isbn username review =
     (case obj_get bs isbn of
        Undefined \<Rightarrow> (Rejected (book_not_found isbn), bs)
      | Inherited \<Rightarrow> (Uncaught type_error, bs)
      | Own b \<Rightarrow>
          (let b' = b\<lparr>reviews := obj_set (reviews b) username review\<rparr>
           in (Resolved b', AList.update isbn b' bs)))"

definition deleteReview :: "catalog \<Rightarrow> string \<Rightarrow> string \<Rightarrow> book settled \<times> catalog" where
  \<comment> \<open>\<open>!books[isbn].reviews[username]\<close> is true for a missing property and for the
      empty string, false for any other own string and for an inherited property\<close>
  "deleteReview bs isbn username =
     (case obj_get bs isbn of
        Undefined \<Rightarrow> (Rejected (book_not_found isbn), bs)
      | Inherited \<Rightarrow> (Uncaught type_error, bs)
      | Own b \<Rightarrow>
          (if obj_get (reviews b) username = Undefined
              \<or> obj_get (reviews b) username = Own []
           then (Rejected (no_review_found username), bs)
           else (let b' = b\<lparr>reviews := obj_delete (reviews b) username\<rparr>
                 in (Resolved b', AList.update isbn b' bs))))"

definition getReviews :: "catalog \<Rightarrow> string \<Rightarrow> string obj option settled" where
  \<comment> \<open>for an inherited \<open>books[isbn]\<close> the promise resolves with \<open>undefined\<close> (\<open>None\<close>)\<close>
  "getReviews bs isbn =
     (case obj_get bs isbn of
        Undefined \<Rightarrow> Rejected (book_not_found isbn)
      | Inherited \<Rightarrow> Resolved None
      | Own b \<Rightarrow> Resolved (Some (reviews b)))"

section \<open>Requests, responses and the environment\<close>

text \<open>
  \<open>json\<close> is a value as \<open>JSON.parse\<close> makes it (an object with each of its keys once),
  or \<open>undefined\<close>. A response is the
  status code and the value handed to \<open>res.json\<close>. A property whose value is
  \<open>undefined\<close> (or a function) is kept as \<open>JUndefined\<close>; serialisation leaves it out.
\<close>

datatype json =
    JUndefined
  | JNull
  | JBool bool
  | JNum real
  | JStr string
  | JArr "json list"
  | JObj "(string \<times> json) list"

fun json_field :: "string \<Rightarrow> json \<Rightarrow> json" where
  "json_field k (JObj kvs) = (case map_of kvs k of Some v \<Rightarrow> v | None \<Rightarrow> JUndefined)"
| "json_field k other = JUndefined"

fun has_field :: "string \<Rightarrow> json \<Rightarrow> bool" where
  "has_field k (JObj kvs) = (map_of kvs k \<noteq> None)"
| "has_field k other = False"

datatype outcome = Reply nat json | ProcessExit string

definition reviews_json :: "string obj \<Rightarrow> json" where
  "reviews_json r = JObj (map (\<lambda>(k, v). (k, JStr v)) r)"

definition book_json :: "book \<Rightarrow> json" where
  "book_json b =
     JObj [(''author'', JStr (author b)), (''title'', JStr (title b)),
           (''reviews'', reviews_json (reviews b)),
           (''genre'', JArr (map JStr (genre b))),
           (''year'', JNum (of_int (year b))), (''rating'', JNum (rating b))]"

definition catalog_json :: "catalog \<Rightarrow> json" where
  "catalog_json bs = JObj (map (\<lambda>(k, b). (k, book_json b)) bs)"

text \<open>
  What the handlers take from outside the repository: the environment variables, the
  clock, the two functions of the \<open>jsonwebtoken\<close> package, and three conversions of the
  JavaScript engine. \<open>jwt_verify token secret\<close> is \<open>Inl name\<close> when verification calls
  back with an error of that \<open>name\<close>, and \<open>Inr decoded\<close> when it calls back with the
  decoded payload. \<open>number_toString n\<close> is the string of the number \<open>n\<close>.
  \<open>js_less v n\<close> and \<open>js_greater v n\<close> are \<open>v < n\<close> and \<open>v > n\<close> for a value \<open>v\<close>
  that is neither a number nor \<open>undefined\<close>, and \<open>None\<close> when the conversion of \<open>v\<close> to
  a number throws. \<open>err_message\<close> and \<open>err_stack\<close> are the message and the stack of the
  exception that reaches the error handler.
\<close>

record env =
  JWT_SECRET :: "string option"
  NODE_ENV :: "string option"
  jwt_sign :: "json \<Rightarrow> string \<Rightarrow> string"
  jwt_verify :: "string \<Rightarrow> string \<Rightarrow> string + json"
  now_ms :: int
  now_iso :: string
  uptime :: real
  number_toString :: "real \<Rightarrow> string"
  js_less :: "json \<Rightarrow> real \<Rightarrow> bool option"
  js_greater :: "json \<Rightarrow> real \<Rightarrow> bool option"
  err_message :: string
  err_stack :: string

definition jwt_secret :: "env \<Rightarrow> string" where
  \<comment> \<open>\<open>process.env.JWT_SECRET || "access"\<close>\<close>
  "jwt_secret e =
     (case JWT_SECRET e of None \<Rightarrow> ''access'' | Some s \<Rightarrow> if s = [] then ''access'' else s)"

datatype http_method = GET | POST | PUT | DELETE

text \<open>
  The body of a request, as \<open>express.json\<close> parsed it: each field is any value of JSON,
  or \<open>JUndefined\<close> when the body has no such field.
\<close>

record body =
  body_username :: json
  body_password :: json
  body_review :: json

text \<open>
  The path of a request is the list of its segments (none of them empty, no trailing
  slash); a route parameter is the segment as decoded.
\<close>

record request =
  req_method :: http_method
  path :: "string list"
  body :: body

record authorization =
  accessToken :: string
  auth_username :: json
  loggedInAt :: string

type_synonym session = "authorization option"

section \<open>JavaScript on the values of JSON\<close>

fun truthy :: "json \<Rightarrow> bool" where
  \<comment> \<open>\<open>undefined\<close>, \<open>null\<close>, \<open>false\<close>, zero and the empty string are falsy\<close>
  "truthy JUndefined = False"
| "truthy JNull = False"
| "truthy (JBool b) = b"
| "truthy (JNum n) = (n \<noteq> 0)"
| "truthy (JStr s) = (s \<noteq> [])"
| "truthy (JArr xs) = True"
| "truthy (JObj kvs) = True"

fun primitive :: "json \<Rightarrow> bool" where
  "primitive (JArr xs) = False"
| "primitive (JObj kvs) = False"
| "primitive other = True"

definition strict_eq :: "json \<Rightarrow> json \<Rightarrow> bool" where
  \<comment> \<open>\<open>stored === given\<close>, between a value stored by an earlier request and a value of
      the request at hand: primitive values are compared by value, and an array or an
      object of one request is never the array or the object of another\<close>
  "strict_eq stored given = (primitive stored \<and> stored = given)"

fun join_strings :: "string list \<Rightarrow> string" where
  \<comment> \<open>the strings with a comma between them\<close>
  "join_strings [] = []"
| "join_strings [s] = s"
| "join_strings (s # t # ts) = s @ '','' @ join_strings (t # ts)"

fun to_string :: "env \<Rightarrow> json \<Rightarrow> string option" where
  \<comment> \<open>the conversion to a string that \<open>regex.test(v)\<close>, \<open>o[v]\<close> and a template literal
      apply; \<open>None\<close> when it throws a TypeError. An array joins its elements, with
      nothing for \<open>null\<close>; an object whose own property \<open>toString\<close> hides the inherited
      method has no conversion\<close>
  "to_string e JUndefined = Some ''undefined''"
| "to_string e JNull = Some ''null''"
| "to_string e (JBool b) = Some (if b then ''true'' else ''false'')"
| "to_string e (JNum n) = Some (number_toString e n)"
| "to_string e (JStr s) = Some s"
| "to_string e (JArr xs) =
     map_option join_strings
       (those (map (\<lambda>x. if x = JNull \<or> x = JUndefined then Some [] else to_string e x) xs))"
| "to_string e (JObj kvs) =
     (if ''toString'' \<in> set (map fst kvs) then None else Some ''[object Object]'')"

fun length_of :: "json \<Rightarrow> json option" where
  \<comment> \<open>\<open>v.length\<close>; \<open>None\<close> when reading the property throws\<close>
  "length_of JUndefined = None"
| "length_of JNull = None"
| "length_of (JBool b) = Some JUndefined"
| "length_of (JNum n) = Some JUndefined"
| "length_of (JStr s) = Some (JNum (of_nat (length s)))"
| "length_of (JArr xs) = Some (JNum (of_nat (length xs)))"
| "length_of (JObj kvs) =
     Some (case map_of kvs ''length'' of None \<Rightarrow> JUndefined | Some v \<Rightarrow> v)"

fun less_than :: "env \<Rightarrow> json \<Rightarrow> real \<Rightarrow> bool option" where
  \<comment> \<open>\<open>v < n\<close>\<close>
  "less_than e (JNum x) n = Some (x < n)"
| "less_than e JUndefined n = Some False"
| "less_than e other n = js_less e other n"

fun greater_than :: "env \<Rightarrow> json \<Rightarrow> real \<Rightarrow> bool option" where
  \<comment> \<open>\<open>v > n\<close>\<close>
  "greater_than e (JNum x) n = Some (x > n)"
| "greater_than e JUndefined n = Some False"
| "greater_than e other n = js_greater e other n"

section \<open>The user store and the validators (auth\_users.js)\<close>

text \<open>
  A stored user has the user name and the password of the request that registered it,
  whatever values they were. The validators and \<open>authenticateUser\<close> take values, not
  only strings; \<open>None\<close> is a TypeError thrown by a conversion.
\<close>

record user =
  username :: json
  password :: json
  registeredAt :: string

definition usernameRegex :: "string \<Rightarrow> bool" where
  \<comment> \<open>\<open>/^[a-zA-Z0-9_]{3,30}$/\<close>\<close>
  "usernameRegex u = (3 \<le> length u \<and> length u \<le> 30 \<and> list_all isWordChar u)"

definition isValidUsername :: "env \<Rightarrow> json \<Rightarrow> bool option" where
  \<comment> \<open>\<open>usernameRegex.test(username)\<close> tests the string of the value\<close>
  "isValidUsername e u = map_option usernameRegex (to_string e u)"

record validation =
  success :: bool
  message :: "string option"

definition validatePassword :: "env \<Rightarrow> json \<Rightarrow> validation option" where
  "validatePassword e p =
     (case length_of p of
        None \<Rightarrow> None
      | Some len \<Rightarrow>
          (case less_than e len 6 of
             None \<Rightarrow> None
           | Some True \<Rightarrow>
               Some \<lparr>success = False,
                     message = Some ''Password must be at least 6 characters long''\<rparr>
           | Some False \<Rightarrow>
               (case greater_than e len 100 of
                  None \<Rightarrow> None
                | Some True \<Rightarrow>
                    Some \<lparr>success = False,
                          message = Some ''Password must be less than 100 characters''\<rparr>
                | Some False \<Rightarrow> Some \<lparr>success = True, message = None\<rparr>)))"

definition authenticateUser :: "user list \<Rightarrow> json \<Rightarrow> json \<Rightarrow> bool" where
  "authenticateUser us u p =
     list_ex (\<lambda>x. strict_eq (username x) u \<and> strict_eq (password x) p) us"

definition error_handler :: "env \<Rightarrow> outcome" where
  \<comment> \<open>the four-argument middleware of index.js, for an exception without \<open>statusCode\<close>:
      what a handler throws, or passes to \<open>next\<close>, ends here\<close>
  "error_handler e =
     Reply 500 (JObj
       ([(''success'', JBool False),
         (''message'', JStr (if NODE_ENV e = Some ''production'' then ''Internal server error''
                            else err_message e))]
        @ (if NODE_ENV e \<noteq> Some ''production'' then [(''stack'', JStr (err_stack e))] else [])))"

section \<open>The handlers\<close>

definition credentials_required :: "json \<Rightarrow> json \<Rightarrow> outcome" where
  "credentials_required u p =
     Reply 400 (JObj
       [(''success'', JBool False),
        (''message'', JStr ''Username and password are required''),
        (''errors'', JObj
           [(''username'', if \<not> truthy u then JStr ''Username is required'' else JUndefined),
            (''password'', if \<not> truthy p then JStr ''Password is required'' else JUndefined)])])"

definition invalid_username_format :: outcome where
  "invalid_username_format =
     Reply 400 (JObj
       [(''success'', JBool False),
        (''message'', JStr ''Invalid username format''),
        (''errors'', JObj
           [(''username'',
             JStr ''Username must be 3-30 alphanumeric characters (underscores allowed)'')])])"

definition opt_str :: "string option \<Rightarrow> json" where
  "opt_str x = (case x of None \<Rightarrow> JUndefined | Some s \<Rightarrow> JStr s)"

definition post_register :: "env \<Rightarrow> user list \<Rightarrow> body \<Rightarrow> outcome \<times> user list" where
  \<comment> \<open>\<open>publicRouter.post("/register")\<close>; an exception goes to \<open>next(error)\<close>\<close>
  "post_register e us bd =
     (let u = body_username bd; p = body_password bd
      in if \<not> truthy u \<or> \<not> truthy p then (credentials_required u p, us)
         else case isValidUsername e u of
                None \<Rightarrow> (error_handler e, us)
              | Some False \<Rightarrow> (invalid_username_format, us)
              | Some True \<Rightarrow>
                  (case validatePassword e p of
                     None \<Rightarrow> (error_handler e, us)
                   | Some passwordValidation \<Rightarrow>
                       if \<not> success passwordValidation
                       then (Reply 400 (JObj
                               [(''success'', JBool False),
                                (''message'', opt_str (message passwordValidation)),
                                (''errors'', JObj
                                   [(''password'', opt_str (message passwordValidation))])]),
                             us)
                       else if list_ex (\<lambda>x. strict_eq (username x) u) us
                       then (Reply 409 (JObj
                               [(''success'', JBool False),
                                (''message'', JStr ''Username already exists''),
                                (''error'', JStr ''USERNAME_EXISTS'')]), us)
                       else (Reply 201 (JObj
                               [(''success'', JBool True),
                                (''message'', JStr ''User registered successfully''),
                                (''data'', JObj
                                   [(''username'', u), (''registeredAt'', JStr (now_iso e))])]),
                             us @ [\<lparr>username = u, password = p, registeredAt = now_iso e\<rparr>])))"

definition post_login :: "env \<Rightarrow> user list \<Rightarrow> session \<Rightarrow> body \<Rightarrow> outcome \<times> session" where
  \<comment> \<open>\<open>authenticatedUsersRouter.post("/login")\<close>; the session is \<open>req.session.authorization\<close>\<close>
  "post_login e us sess bd =
     (let u = body_username bd; p = body_password bd
      in if \<not> truthy u \<or> \<not> truthy p then (credentials_required u p, sess)
         else case isValidUsername e u of
                None \<Rightarrow> (error_handler e, sess)
              | Some False \<Rightarrow> (invalid_username_format, sess)
              | Some True \<Rightarrow>
                  if \<not> authenticateUser us u p
                  then (Reply 401 (JObj
                          [(''success'', JBool False),
                           (''message'', JStr ''Invalid username or password''),
                           (''error'', JStr ''AUTH_FAILED'')]), sess)
                  else
                    (let tokenPayload = JObj
                           [(''username'', u),
                            (''iat'', JNum (of_int (now_ms e div 1000))),
                            (''exp'', JNum (of_int (now_ms e div 1000 + 60 * 60)))];
                         token = jwt_sign e tokenPayload (jwt_secret e)
                     in (Reply 200 (JObj
                           [(''success'', JBool True),
                            (''message'', JStr ''Login successful''),
                            (''data'', JObj
                               [(''username'', u), (''token'', JStr token),
                                (''expiresIn'', JStr ''1 hour'')])]),
                         Some \<lparr>accessToken = token, auth_username = u,
                               loggedInAt = now_iso e\<rparr>)))"

datatype verdict = Respond outcome | Next json

definition authMiddleware :: "env \<Rightarrow> session \<Rightarrow> verdict" where
  \<comment> \<open>\<open>Next decoded\<close>: \<open>req.user = decoded; next()\<close>\<close>
  "authMiddleware e sess =
     (case sess of
        Some a \<Rightarrow>
          (case jwt_verify e (accessToken a) (jwt_secret e) of
             Inl name \<Rightarrow>
               Respond (Reply 403 (JObj
                 [(''success'', JBool False),
                  (''message'', JStr ''Authentication failed. Please log in again.''),
                  (''error'', JStr (if name = ''TokenExpiredError'' then ''Token expired''
                                   else ''Invalid token''))]))
           | Inr decoded \<Rightarrow> Next decoded)
      | None \<Rightarrow>
          Respond (Reply 401 (JObj
            [(''success'', JBool False),
             (''message'', JStr ''Authentication required. Please log in.''),
             (''error'', JStr ''No active session'')])))"

text \<open>
  The handlers under \<open>/auth\<close> take the user name from the session. The store uses it as
  a property key and in a message, that is as its string. The session of a login holds
  a primitive value, whose conversion cannot throw; for any other value the conversion
  throws inside the timer callback of the store, after the test of \<open>books[isbn]\<close>.
\<close>

definition review_required :: outcome where
  "review_required =
     Reply 400 (JObj
       [(''success'', JBool False),
        (''message'', JStr ''Review content is required and cannot be empty''),
        (''error'', JStr ''REVIEW_CONTENT_REQUIRED'')])"

definition put_review :: "env \<Rightarrow> catalog \<Rightarrow> authorization \<Rightarrow> string \<Rightarrow> body \<Rightarrow> outcome \<times> catalog" where
  \<comment> \<open>\<open>authenticatedUsersRouter.put("/auth/review/:isbn")\<close>; a truthy review that is not
      a string has no method \<open>trim\<close>, and the call throws\<close>
  "put_review e bs a isbn bd =
     (if \<not> truthy (body_review bd) then (review_required, bs)
      else case body_review bd of
             JStr review \<Rightarrow>
               if length (trim review) = 0 then (review_required, bs)
               else if length review > 1000
               then (Reply 400 (JObj
                       [(''success'', JBool False),
                        (''message'', JStr ''Review must be less than 1000 characters''),
                        (''error'', JStr ''REVIEW_TOO_LONG'')]), bs)
               else
                 (case to_string e (auth_username a) of
                    None \<Rightarrow>
                      (case obj_get bs isbn of
                         Undefined \<Rightarrow>
                           (Reply 404 (JObj
                              [(''success'', JBool False),
                               (''message'', JStr (book_not_found isbn)),
                               (''error'', JStr ''BOOK_NOT_FOUND'')]), bs)
                       | found \<Rightarrow> (ProcessExit type_error, bs))
                  | Some uname \<Rightarrow>
                      (case addReview bs isbn uname (trim review) of
                         (Resolved updatedBook, bs') \<Rightarrow>
                           (let action =
                                  (if obj_get (reviews updatedBook) uname = Own (trim review)
                                   then ''added'' else ''updated'')
                            in (Reply 200 (JObj
                                  [(''success'', JBool True),
                                   (''message'',
                                    JStr (''Review '' @ action @ '' successfully'')),
                                   (''data'', JObj
                                      [(''isbn'', JStr isbn),
                                       (''username'', auth_username a),
                                       (''review'', JStr (trim review)),
                                       (''timestamp'', JStr (now_iso e)),
                                       (''action'', JStr action)])]), bs'))
                       | (Rejected msg, bs') \<Rightarrow>
                           (Reply 404 (JObj
                              [(''success'', JBool False), (''message'', JStr msg),
                               (''error'', JStr ''BOOK_NOT_FOUND'')]), bs')
                       | (Uncaught err, bs') \<Rightarrow> (ProcessExit err, bs')))
           | other \<Rightarrow> (error_handler e, bs))"

definition delete_rejected :: "string \<Rightarrow> outcome" where
  \<comment> \<open>the answer of the DELETE route to a rejection with the message \<open>msg\<close>\<close>
  "delete_rejected msg =
     Reply (if str_includes msg ''not found'' then 404 else 400) (JObj
       [(''success'', JBool False), (''message'', JStr msg),
        (''error'', JStr (if str_includes msg ''No review'' then ''REVIEW_NOT_FOUND''
                         else ''BOOK_NOT_FOUND''))])"

definition delete_review :: "env \<Rightarrow> catalog \<Rightarrow> authorization \<Rightarrow> string \<Rightarrow> outcome \<times> catalog" where
  \<comment> \<open>\<open>authenticatedUsersRouter.delete("/auth/review/:isbn")\<close>\<close>
  "delete_review e bs a isbn =
     (case to_string e (auth_username a) of
        None \<Rightarrow>
          (case obj_get bs isbn of
             Undefined \<Rightarrow> (delete_rejected (book_not_found isbn), bs)
           | found \<Rightarrow> (ProcessExit type_error, bs))
      | Some uname \<Rightarrow>
          (case deleteReview bs isbn uname of
             (Resolved updatedBook, bs') \<Rightarrow>
               (Reply 200 (JObj
                  [(''success'', JBool True),
                   (''message'', JStr ''Review deleted successfully''),
                   (''data'', JObj
                      [(''isbn'', JStr isbn), (''username'', auth_username a),
                       (''deletedAt'', JStr (now_iso e))])]), bs')
           | (Rejected msg, bs') \<Rightarrow> (delete_rejected msg, bs')
           | (Uncaught err, bs') \<Rightarrow> (ProcessExit err, bs')))"

definition get_profile :: "user list \<Rightarrow> authorization \<Rightarrow> outcome" where
  \<comment> \<open>\<open>authenticatedUsersRouter.get("/auth/profile")\<close>;
      \<open>user?.registeredAt || "Unknown"\<close> also replaces an empty \<open>registeredAt\<close>\<close>
  "get_profile us a =
     (let uname = auth_username a;
          found = find (\<lambda>u. strict_eq (username u) uname) us
      in Reply 200 (JObj
           [(''success'', JBool True),
            (''data'', JObj
               [(''username'', uname),
                (''registeredAt'',
                 JStr (case found of
                         None \<Rightarrow> ''Unknown''
                       | Some u \<Rightarrow> if registeredAt u = [] then ''Unknown'' else registeredAt u)),
                (''lastLogin'', JStr (loggedInAt a))])]))"

definition blank :: "string \<Rightarrow> bool" where
  \<comment> \<open>\<open>!x || x.trim() === ''\<close>\<close>
  "blank x = (x = [] \<or> trim x = [])"

definition or_default :: "string \<Rightarrow> string \<Rightarrow> string" where
  \<comment> \<open>\<open>msg || dflt\<close>\<close>
  "or_default msg dflt = (if msg = [] then dflt else msg)"

definition get_root :: "env \<Rightarrow> catalog \<Rightarrow> outcome" where
  "get_root e bs =
     Reply 200 (JObj
       [(''success'', JBool True), (''message'', JStr ''Books retrieved successfully''),
        (''data'', catalog_json (getAllBooks bs)),
        (''count'', JNum (of_nat (length (obj_keys (getAllBooks bs))))),
        (''timestamp'', JStr (now_iso e))])"

definition book_not_found_reply :: "string \<Rightarrow> string \<Rightarrow> outcome" where
  "book_not_found_reply msg isbn =
     Reply 404 (JObj
       [(''success'', JBool False), (''message'', JStr (or_default msg ''Book not found'')),
        (''error'', JStr ''BOOK_NOT_FOUND''), (''requestedIsbn'', JStr isbn)])"

definition missing_param :: "string \<Rightarrow> string \<Rightarrow> outcome" where
  "missing_param what code =
     Reply 400 (JObj
       [(''success'', JBool False), (''message'', JStr (what @ '' parameter is required'')),
        (''error'', JStr code)])"

definition get_isbn :: "catalog \<Rightarrow> string \<Rightarrow> outcome" where
  \<comment> \<open>an inherited property serialises to nothing (a function) or to \<open>{}\<close> (the
      prototype object)\<close>
  "get_isbn bs isbn =
     (if blank isbn then missing_param ''ISBN'' ''MISSING_ISBN''
      else case getBookByISBN bs isbn of
             Resolved found \<Rightarrow>
               Reply 200 (JObj
                 [(''success'', JBool True), (''message'', JStr ''Book retrieved successfully''),
                  (''data'', case found of
                               Own b \<Rightarrow> book_json b
                             | Inherited \<Rightarrow> if isbn = ''__proto__'' then JObj [] else JUndefined
                             | Undefined \<Rightarrow> JUndefined),
                  (''isbn'', JStr isbn)])
           | Rejected msg \<Rightarrow> book_not_found_reply msg isbn
           | Uncaught err \<Rightarrow> ProcessExit err)"

definition search_reply :: "env \<Rightarrow> catalog \<Rightarrow> string \<Rightarrow> string \<Rightarrow> outcome" where
  "search_reply e matching what term =
     (if length (obj_keys matching) = 0
      then Reply 404 (JObj
             [(''success'', JBool False),
              (''message'', JStr (''No books found '' @ what @ '' containing '' @ [CHR 0x22]
                                  @ term @ [CHR 0x22])),
              (''error'', JStr ''NO_BOOKS_FOUND''), (''searchTerm'', JStr term)])
      else Reply 200 (JObj
             [(''success'', JBool True), (''message'', JStr ''Books retrieved successfully''),
              (''data'', catalog_json matching),
              (''count'', JNum (of_nat (length (obj_keys matching)))),
              (''searchTerm'', JStr term), (''timestamp'', JStr (now_iso e))]))"

definition get_author :: "env \<Rightarrow> catalog \<Rightarrow> string \<Rightarrow> outcome" where
  "get_author e bs a =
     (if blank a then missing_param ''Author'' ''MISSING_AUTHOR''
      else search_reply e (searchByAuthor bs (trim a)) ''by author'' a)"

definition get_title :: "env \<Rightarrow> catalog \<Rightarrow> string \<Rightarrow> outcome" where
  "get_title e bs t =
     (if blank t then missing_param ''Title'' ''MISSING_TITLE''
      else search_reply e (searchByTitle bs (trim t)) ''with title'' t)"

definition get_review :: "catalog \<Rightarrow> string \<Rightarrow> outcome" where
  \<comment> \<open>when the promise resolves with \<open>undefined\<close>, \<open>Object.keys\<close> throws inside \<open>then\<close>
      and the \<open>catch\<close> that follows replies with the message of that exception\<close>
  "get_review bs isbn =
     (if blank isbn then missing_param ''ISBN'' ''MISSING_ISBN''
      else case getReviews bs isbn of
             Resolved (Some r) \<Rightarrow>
               (let reviewCount = length (obj_keys r)
                in Reply 200 (JObj
                     [(''success'', JBool True),
                      (''message'', JStr (if reviewCount = 0 then ''No reviews found for this book''
                                         else ''Reviews retrieved successfully'')),
                      (''data'', reviews_json r), (''isbn'', JStr isbn),
                      (''count'', JNum (of_nat reviewCount)),
                      (''hasReviews'', JBool (reviewCount > 0))]))
           | Resolved None \<Rightarrow>
               book_not_found_reply ''Cannot convert undefined or null to object'' isbn
           | Rejected msg \<Rightarrow> book_not_found_reply msg isbn
           | Uncaught err \<Rightarrow> ProcessExit err)"

definition public_health :: "env \<Rightarrow> outcome" where
  \<comment> \<open>\<open>publicRouter.get('/health')\<close> in general.js\<close>
  "public_health e =
     Reply 200 (JObj
       [(''success'', JBool True), (''message'', JStr ''Service is healthy''),
        (''timestamp'', JStr (now_iso e)), (''service'', JStr ''Book Review API''),
        (''version'', JStr ''1.0.0'')])"

definition app_health :: "env \<Rightarrow> outcome" where
  \<comment> \<open>\<open>app.get('/health')\<close> in index.js\<close>
  "app_health e =
     Reply 200 (JObj
       [(''success'', JBool True), (''message'', JStr ''Service is healthy''),
        (''timestamp'', JStr (now_iso e)), (''uptime'', JNum (uptime e))])"

definition doc_entry :: "string \<Rightarrow> string \<Rightarrow> string \<Rightarrow> json" where
  "doc_entry m p d =
     JObj [(''method'', JStr m), (''path'', JStr p), (''description'', JStr d)]"

definition api_docs :: outcome where
  "api_docs =
     Reply 200 (JObj
       [(''success'', JBool True),
        (''data'', JObj
          [(''service'', JStr ''Book Review API''), (''version'', JStr ''1.0.0''),
           (''description'',
            JStr ''RESTful API for managing book reviews with JWT authentication''),
           (''endpoints'', JObj
             [(''public'', JArr
                [doc_entry ''GET'' ''/'' ''Get all books'',
                 doc_entry ''GET'' ''/isbn/:isbn'' ''Get book by ISBN'',
                 doc_entry ''GET'' ''/author/:author'' ''Search books by author'',
                 doc_entry ''GET'' ''/title/:title'' ''Search books by title'',
                 doc_entry ''GET'' ''/review/:isbn'' ''Get book reviews'',
                 doc_entry ''POST'' ''/register'' ''Register new user'',
                 doc_entry ''GET'' ''/health'' ''Service health check'']),
              (''authenticated'', JArr
                [doc_entry ''POST'' ''/customer/login'' ''User login'',
                 doc_entry ''PUT'' ''/customer/auth/review/:isbn'' ''Add/update review'',
                 doc_entry ''DELETE'' ''/customer/auth/review/:isbn'' ''Delete review'',
                 doc_entry ''GET'' ''/customer/auth/profile'' ''Get user profile''])]),
           (''authentication'', JStr ''JWT token required for authenticated endpoints''),
           (''note'', JStr ''Use the login endpoint to obtain a JWT token'')])])"

section \<open>Routing (index.js)\<close>

text \<open>
  The application is the chain of layers in the order of their registration. A layer
  either answers or passes the request on. Path literals are matched without regard to
  case, as the router does by default; the literals are ASCII, so comparing the
  lower-cased segment is the same.
\<close>

record server =
  users :: "user list"
  books :: catalog

definition initial_server :: server where
  "initial_server = \<lparr>users = [], books = initial_books\<rparr>"

definition seg :: "string \<Rightarrow> string \<Rightarrow> bool" where
  "seg lit s = (toLowerCase s = lit)"

datatype endpoint =
    Login | PutReview string | DeleteReview string | Profile
  | Register | Root | Isbn string | Author string | Title string | Review string
  | Health | ApiDocs

fun customerRoutes :: "http_method \<Rightarrow> string list \<Rightarrow> endpoint option" where
  \<comment> \<open>the routes of \<open>authenticatedUsersRouter\<close>, on the path after \<open>/customer\<close>\<close>
  "customerRoutes POST [l] = (if seg ''login'' l then Some Login else None)"
| "customerRoutes PUT [a, r, isbn] =
     (if seg ''auth'' a \<and> seg ''review'' r then Some (PutReview isbn) else None)"
| "customerRoutes DELETE [a, r, isbn] =
     (if seg ''auth'' a \<and> seg ''review'' r then Some (DeleteReview isbn) else None)"
| "customerRoutes GET [a, p] =
     (if seg ''auth'' a \<and> seg ''profile'' p then Some Profile else None)"
| "customerRoutes m p = None"

fun generalRoutes :: "http_method \<Rightarrow> string list \<Rightarrow> endpoint option" where
  \<comment> \<open>the routes of \<open>publicRouter\<close>, in the order of the file\<close>
  "generalRoutes POST [r] = (if seg ''register'' r then Some Register else None)"
| "generalRoutes GET [] = Some Root"
| "generalRoutes GET [k, x] =
     (if seg ''isbn'' k then Some (Isbn x)
      else if seg ''author'' k then Some (Author x)
      else if seg ''title'' k then Some (Title x)
      else if seg ''review'' k then Some (Review x)
      else None)"
| "generalRoutes GET [h] =
     (if seg ''health'' h then Some Health
      else if seg ''api-docs'' h then Some ApiDocs
      else None)"
| "generalRoutes m p = None"

definition under_auth :: "string list \<Rightarrow> bool" where
  \<comment> \<open>the mount path \<open>/customer/auth/*\<close>\<close>
  "under_auth p =
     (case p of c # a # x # rest \<Rightarrow> seg ''customer'' c \<and> seg ''auth'' a | other \<Rightarrow> False)"

fun method_name :: "http_method \<Rightarrow> string" where
  "method_name GET = ''GET''"
| "method_name POST = ''POST''"
| "method_name PUT = ''PUT''"
| "method_name DELETE = ''DELETE''"

definition path_string :: "string list \<Rightarrow> string" where
  "path_string p = (if p = [] then ''/'' else concat (map (\<lambda>s. ''/'' @ s) p))"

definition not_found :: "request \<Rightarrow> outcome" where
  \<comment> \<open>the catch-all registered after the routers\<close>
  "not_found rq =
     Reply 404 (JObj
       [(''success'', JBool False),
        (''message'', JStr (''Route '' @ method_name (req_method rq) @ '' '' @ path_string (path rq)
                            @ '' not found'')),
        (''suggestion'', JStr ''Check the API documentation for available endpoints'')])"

definition handle :: "env \<Rightarrow> server \<Rightarrow> session \<Rightarrow> request \<Rightarrow> endpoint
    \<Rightarrow> outcome \<times> server \<times> session" where
  \<comment> \<open>a handler under \<open>/auth\<close> reads \<open>req.session.authorization\<close>; without one the read
      throws and the exception goes to the error handler\<close>
  "handle e st sess rq ep =
     (case ep of
        Login \<Rightarrow>
          (case post_login e (users st) sess (body rq) of (out, sess') \<Rightarrow> (out, st, sess'))
      | PutReview isbn \<Rightarrow>
          (case sess of
             None \<Rightarrow> (error_handler e, st, sess)
           | Some a \<Rightarrow>
               (case put_review e (books st) a isbn (body rq) of
                  (out, bs') \<Rightarrow> (out, st\<lparr>books := bs'\<rparr>, sess)))
      | DeleteReview isbn \<Rightarrow>
          (case sess of
             None \<Rightarrow> (error_handler e, st, sess)
           | Some a \<Rightarrow>
               (case delete_review e (books st) a isbn of
                  (out, bs') \<Rightarrow> (out, st\<lparr>books := bs'\<rparr>, sess)))
      | Profile \<Rightarrow>
          (case sess of
             None \<Rightarrow> (error_handler e, st, sess)
           | Some a \<Rightarrow> (get_profile (users st) a, st, sess))
      | Register \<Rightarrow>
          (case post_register e (users st) (body rq) of
             (out, us') \<Rightarrow> (out, st\<lparr>users := us'\<rparr>, sess))
      | Root \<Rightarrow> (get_root e (books st), st, sess)
      | Isbn x \<Rightarrow> (get_isbn (books st) x, st, sess)
      | Author x \<Rightarrow> (get_author e (books st) x, st, sess)
      | Title x \<Rightarrow> (get_title e (books st) x, st, sess)
      | Review x \<Rightarrow> (get_review (books st) x, st, sess)
      | Health \<Rightarrow> (public_health e, st, sess)
      | ApiDocs \<Rightarrow> (api_docs, st, sess))"

type_synonym layer =
  "env \<Rightarrow> server \<Rightarrow> session \<Rightarrow> request \<Rightarrow> (outcome \<times> server \<times> session) option"

definition auth_layer :: layer where
  \<comment> \<open>\<open>app.use("/customer/auth/*", authMiddleware)\<close>\<close>
  "auth_layer e st sess rq =
     (if under_auth (path rq)
      then (case authMiddleware e sess of
              Respond out \<Rightarrow> Some (out, st, sess)
            | Next decoded \<Rightarrow> None)
      else None)"

definition customer_layer :: layer where
  \<comment> \<open>\<open>app.use("/customer", customerRoutes)\<close>\<close>
  "customer_layer e st sess rq =
     (case path rq of
        [] \<Rightarrow> None
      | c # rest \<Rightarrow>
          if seg ''customer'' c
          then map_option (handle e st sess rq) (customerRoutes (req_method rq) rest)
          else None)"

definition general_layer :: layer where
  \<comment> \<open>\<open>app.use("/", generalRoutes)\<close>\<close>
  "general_layer e st sess rq =
     map_option (handle e st sess rq) (generalRoutes (req_method rq) (path rq))"

definition catch_all_layer :: layer where
  \<comment> \<open>\<open>app.use((req, res) => res.status(404)...)\<close>\<close>
  "catch_all_layer e st sess rq = Some (not_found rq, st, sess)"

definition app_health_layer :: layer where
  \<comment> \<open>\<open>app.get('/health', ...)\<close>, the last registration of index.js\<close>
  "app_health_layer e st sess rq =
     (if req_method rq = GET \<and> (case path rq of [h] \<Rightarrow> seg ''health'' h | other \<Rightarrow> False)
      then Some (app_health e, st, sess) else None)"

fun run_layers :: "layer list \<Rightarrow> env \<Rightarrow> server \<Rightarrow> session \<Rightarrow> request
    \<Rightarrow> outcome \<times> server \<times> session" where
  \<comment> \<open>when no layer answers, the framework's own 404 page\<close>
  "run_layers [] e st sess rq =
     (Reply 404 (JStr (''Cannot '' @ method_name (req_method rq) @ '' '' @ path_string (path rq))),
      st, sess)"
| "run_layers (l # ls) e st sess rq =
     (case l e st sess rq of Some r \<Rightarrow> r | None \<Rightarrow> run_layers ls e st sess rq)"

definition app_layers :: "layer list" where
  "app_layers = [auth_layer, customer_layer, general_layer, catch_all_layer, app_health_layer]"

definition dispatch :: "env \<Rightarrow> server \<Rightarrow> session \<Rightarrow> request \<Rightarrow> outcome \<times> server \<times> session" where
  "dispatch e st sess rq = run_layers app_layers e st sess rq"

inductive reachable :: "server \<Rightarrow> bool" where
  start: "reachable initial_server"
| request: "reachable st \<Longrightarrow> dispatch e st sess rq = (out, st', sess') \<Longrightarrow> reachable st'"

section \<open>Notions of the specification and example data\<close>

definition same_letter :: "char \<Rightarrow> char \<Rightarrow> bool" where
  \<comment> \<open>two characters that differ at most in case\<close>
  "same_letter c d = (toLowerCase_char c = toLowerCase_char d)"

definition contains_ignoring_case :: "string \<Rightarrow> string \<Rightarrow> bool" where
  \<comment> \<open>the specification's "case-insensitive substring": some stretch of \<open>s\<close> is \<open>n\<close>
      letter by letter, up to case\<close>
  "contains_ignoring_case s n =
     (\<exists>pre mid suf. s = pre @ mid @ suf \<and> list_all2 same_letter mid n)"

definition without_reviews :: "catalog \<Rightarrow> catalog" where
  \<comment> \<open>the catalogue with every \<open>reviews\<close> emptied: what no request changes\<close>
  "without_reviews bs = map (\<lambda>(k, b). (k, b\<lparr>reviews := []\<rparr>)) bs"

definition book1 :: book where
  "book1 = mk_book ''Chinua Achebe'' ''Things Fall Apart'' [''Fiction'', ''Historical''] 1958 4.5"

definition example_env :: env where
  "example_env =
     \<lparr>JWT_SECRET = None, NODE_ENV = None,
      jwt_sign = (\<lambda>payload secret. ''good''),
      jwt_verify = (\<lambda>token secret.
         if token = ''good'' then Inr (JObj [(''username'', JStr ''alice'')])
         else if token = ''old'' then Inl ''TokenExpiredError''
         else Inl ''JsonWebTokenError''),
      now_ms = 1767225600000, now_iso = ''2026-01-01T00:00:00.000Z'',
      uptime = 12.5,
      number_toString = (\<lambda>n. if n = 123 then ''123'' else ''0.5''),
      js_less = (\<lambda>v n. Some False), js_greater = (\<lambda>v n. Some False),
      err_message = ''review.trim is not a function'', err_stack = []\<rparr>"

definition session_of :: "string \<Rightarrow> string \<Rightarrow> authorization" where
  "session_of name token =
     \<lparr>accessToken = token, auth_username = JStr name,
      loggedInAt = ''2026-01-01T00:00:00.000Z''\<rparr>"

definition no_body :: body where
  "no_body =
     \<lparr>body_username = JUndefined, body_password = JUndefined, body_review = JUndefined\<rparr>"

definition review_body :: "string \<Rightarrow> body" where
  "review_body t =
     \<lparr>body_username = JUndefined, body_password = JUndefined, body_review = JStr t\<rparr>"

definition profile_request :: request where
  "profile_request =
     \<lparr>req_method = GET, path = [''customer'', ''auth'', ''profile''], body = no_body\<rparr>"

definition register_request :: request where
  "register_request =
     \<lparr>req_method = POST, path = [''register''],
      body = \<lparr>body_username = JStr ''alice'', body_password = JStr ''secret1'',
              body_review = JUndefined\<rparr>\<rparr>"

definition registered_server :: server where
  "registered_server =
     \<lparr>users = [\<lparr>username = JStr ''alice'', password = JStr ''secret1'',
                registeredAt = ''2026-01-01T00:00:00.000Z''\<rparr>],
      books = initial_books\<rparr>"

definition credentials :: "string \<Rightarrow> body" where
  "credentials name =
     \<lparr>body_username = JStr name, body_password = JStr ''secret1'',
      body_review = JUndefined\<rparr>"

definition register_as :: "string \<Rightarrow> request" where
  "register_as name = \<lparr>req_method = POST, path = [''register''], body = credentials name\<rparr>"

definition login_as :: "string \<Rightarrow> request" where
  "login_as name =
     \<lparr>req_method = POST, path = [''customer'', ''login''], body = credentials name\<rparr>"

definition put_request :: "string \<Rightarrow> string \<Rightarrow> request" where
  "put_request isbn t =
     \<lparr>req_method = PUT, path = [''customer'', ''auth'', ''review'', isbn], body = review_body t\<rparr>"

definition delete_request :: "string \<Rightarrow> request" where
  "delete_request isbn =
     \<lparr>req_method = DELETE, path = [''customer'', ''auth'', ''review'', isbn], body = no_body\<rparr>"

definition server_with :: "string \<Rightarrow> server" where
  \<comment> \<open>the server after the registration of one user\<close>
  "server_with name =
     \<lparr>users = [\<lparr>username = JStr name, password = JStr ''secret1'',
                registeredAt = ''2026-01-01T00:00:00.000Z''\<rparr>],
      books = initial_books\<rparr>"



definition blank_review_books :: catalog where
  \<comment> \<open>a catalogue that \<open>addReview\<close> with the empty text produces\<close>
  "blank_review_books = [(''1'', book1\<lparr>reviews := [(''alice'', [])]\<rparr>)]"

fun reply_body :: "outcome \<Rightarrow> json" where
  \<comment> \<open>the body of an answer; a process that ended has sent none\<close>
  "reply_body (Reply code j) = j"
| "reply_body (ProcessExit err) = JUndefined"

section \<open>Objects and strings\<close>

lemma obj_get_Own: "obj_get ob k = Own v \<longleftrightarrow> map_of ob k = Some v"
  by (simp add: obj_get_def split: option.splits)

lemma obj_get_Undefined:
  "obj_get ob k = Undefined \<longleftrightarrow> map_of ob k = None \<and> k \<notin> set object_prototype_keys"
  by (simp add: obj_get_def split: option.splits)

lemma obj_get_Inherited:
  "obj_get ob k = Inherited \<longleftrightarrow> map_of ob k = None \<and> k \<in> set object_prototype_keys"
  by (simp add: obj_get_def split: option.splits)

lemma map_of_obj_set:
  "k \<noteq> ''__proto__'' \<or> map_of ob k \<noteq> None \<Longrightarrow>
   map_of (obj_set ob k v) = (map_of ob)(k \<mapsto> v)"
  by (auto simp: obj_set_def update_conv')

lemma obj_set_idem: "obj_set (obj_set ob k v) k v = obj_set ob k v"
  by (auto simp: obj_set_def update_conv')

lemma obj_set_overwrite: "obj_set (obj_set ob k v) k w = obj_set ob k w"
  by (auto simp: obj_set_def update_conv')

lemma update_absent: "k \<notin> fst ` set al \<Longrightarrow> AList.update k v al = al @ [(k, v)]"
  by (induction al) auto

lemma startsWith_iff: "startsWith s n \<longleftrightarrow> (\<exists>suf. s = n @ suf)"
  by (induction s n rule: startsWith.induct) auto

lemma str_includes_iff: "str_includes s n \<longleftrightarrow> (\<exists>pre suf. s = pre @ n @ suf)"
proof (induction s)
  case Nil
  then show ?case by auto
next
  case (Cons c cs)
  show ?case
  proof
    assume "str_includes (c # cs) n"
    then consider "startsWith (c # cs) n" | "str_includes cs n" by auto
    then show "\<exists>pre suf. c # cs = pre @ n @ suf"
    proof cases
      case 1
      then obtain suf where "c # cs = n @ suf" by (auto simp: startsWith_iff)
      then have "c # cs = [] @ n @ suf" by simp
      then show ?thesis by blast
    next
      case 2
      then obtain pre suf where "cs = pre @ n @ suf" using Cons.IH by auto
      then have "c # cs = (c # pre) @ n @ suf" by simp
      then show ?thesis by blast
    qed
  next
    assume "\<exists>pre suf. c # cs = pre @ n @ suf"
    then obtain pre suf where ps: "c # cs = pre @ n @ suf" by blast
    show "str_includes (c # cs) n"
    proof (cases pre)
      case Nil
      then have "startsWith (c # cs) n" using ps by (auto simp: startsWith_iff)
      then show ?thesis by simp
    next
      case (Cons p pre')
      then have "cs = pre' @ n @ suf" using ps by simp
      then have "str_includes cs n" using Cons.IH by blast
      then show ?thesis by simp
    qed
  qed
qed

lemma same_letter_map:
  "list_all2 same_letter xs ys \<longleftrightarrow> toLowerCase xs = toLowerCase ys"
proof (induction xs arbitrary: ys)
  case Nil
  then show ?case by (auto simp: toLowerCase_def)
next
  case (Cons x xs)
  then show ?case by (cases ys) (auto simp: toLowerCase_def same_letter_def)
qed

lemma map_split:
  "map f xs = ys @ zs \<Longrightarrow> \<exists>us vs. xs = us @ vs \<and> map f us = ys \<and> map f vs = zs"
  by (auto simp: map_eq_append_conv)

lemma includes_lower_iff:
  "str_includes (toLowerCase s) (toLowerCase n) \<longleftrightarrow> contains_ignoring_case s n"
proof
  assume "str_includes (toLowerCase s) (toLowerCase n)"
  then obtain pre suf where "map toLowerCase_char s = pre @ (map toLowerCase_char n @ suf)"
    by (auto simp: str_includes_iff toLowerCase_def)
  then obtain p r where s: "s = p @ r"
    and "map toLowerCase_char r = map toLowerCase_char n @ suf"
    using map_split by blast
  then obtain m t where r: "r = m @ t"
    and "map toLowerCase_char m = map toLowerCase_char n"
    using map_split by blast
  then have "list_all2 same_letter m n" by (simp add: same_letter_map toLowerCase_def)
  with s r show "contains_ignoring_case s n"
    unfolding contains_ignoring_case_def by blast
next
  assume "contains_ignoring_case s n"
  then obtain pre mid suf where "s = pre @ mid @ suf" "toLowerCase mid = toLowerCase n"
    by (auto simp: contains_ignoring_case_def same_letter_map)
  then have "toLowerCase s = toLowerCase pre @ toLowerCase n @ toLowerCase suf"
    by (simp add: toLowerCase_def)
  then show "str_includes (toLowerCase s) (toLowerCase n)"
    unfolding str_includes_iff by blast
qed

lemma seg_simps:
  "seg ''customer'' ''customer''" "seg ''auth'' ''auth''" "seg ''profile'' ''profile''"
  "seg ''review'' ''review''" "seg ''health'' ''health''" "seg ''register'' ''register''"
  "seg ''login'' ''login''"
  by (simp_all add: seg_def toLowerCase_def isUpper_def)

section \<open>The review operations of the store\<close>

lemma addReview_present:
  "map_of bs isbn = Some b \<Longrightarrow>
   addReview bs isbn u t =
     (Resolved (b\<lparr>reviews := obj_set (reviews b) u t\<rparr>),
      AList.update isbn (b\<lparr>reviews := obj_set (reviews b) u t\<rparr>) bs)"
  by (simp add: addReview_def obj_get_def Let_def)

lemma getReviews_after_update:
  "getReviews (AList.update isbn b bs) isbn = Resolved (Some (reviews b))"
  by (simp add: getReviews_def obj_get_def update_conv')

text \<open>
  For every user name other than \<open>__proto__\<close> the store does what the specification says
  of \<open>upsertReview\<close>: the review is listed afterwards, a second write replaces the first,
  and writing the same review twice is writing it once.
\<close>

lemma addReview_then_getReviews:
  assumes "map_of bs isbn = Some b" and "u \<noteq> ''__proto__''"
  shows "\<exists>r. getReviews (snd (addReview bs isbn u t)) isbn = Resolved (Some r)
           \<and> map_of r u = Some t"
  using assms by (simp add: addReview_present getReviews_after_update map_of_obj_set)

lemma addReview_overwrites:
  assumes "map_of bs isbn = Some b"
  shows "snd (addReview (snd (addReview bs isbn u t)) isbn u t') = snd (addReview bs isbn u t')"
  using assms by (simp add: addReview_present update_conv' obj_set_overwrite)

lemma addReview_idempotent:
  assumes "map_of bs isbn = Some b"
  shows "snd (addReview (snd (addReview bs isbn u t)) isbn u t) = snd (addReview bs isbn u t)"
  using assms by (rule addReview_overwrites)

text \<open>
  C5. The claim: for every ISBN in the catalogue, every user name and every text,
  \<open>listReviews\<close> after \<open>upsertReview\<close> maps the user name to the text. The user name
  \<open>__proto__\<close> has the shape the validator accepts, and for it the assignment
  \<open>reviews[username] = review\<close> stores nothing: on the seed catalogue the book and the
  catalogue come back unchanged and the reviews of book 1 are still empty.
\<close>

theorem addReview_proto_username:
  "isValidUsername e (JStr ''__proto__'') = Some True
   \<and> addReview initial_books ''1'' ''__proto__'' ''Great book'' = (Resolved book1, initial_books)
   \<and> getReviews (snd (addReview initial_books ''1'' ''__proto__'' ''Great book'')) ''1''
       = Resolved (Some [])"
  by (simp add: isValidUsername_def usernameRegex_def isWordChar_def addReview_def
      getReviews_def obj_get_def
      obj_set_def initial_books_def book1_def mk_book_def Let_def)

text \<open>
  On names that \<open>Object.prototype\<close> does not define, and when the stored text is not
  empty, \<open>deleteReview\<close> is the operation of the specification.
\<close>

lemma deleteReview_ordinary:
  assumes "isbn \<notin> set object_prototype_keys" and "u \<notin> set object_prototype_keys"
    and "\<forall>b. map_of bs isbn = Some b \<longrightarrow> map_of (reviews b) u \<noteq> Some []"
  shows "deleteReview bs isbn u =
     (case map_of bs isbn of
        None \<Rightarrow> (Rejected (book_not_found isbn), bs)
      | Some b \<Rightarrow>
          (case map_of (reviews b) u of
             None \<Rightarrow> (Rejected (no_review_found u), bs)
           | Some t \<Rightarrow>
               (Resolved (b\<lparr>reviews := AList.delete u (reviews b)\<rparr>),
                AList.update isbn (b\<lparr>reviews := AList.delete u (reviews b)\<rparr>) bs)))"
  using assms
  by (auto simp: deleteReview_def obj_get_def obj_delete_def Let_def split: option.splits)

lemma deleteReview_inherited_isbn:
  "deleteReview initial_books ''constructor'' u = (Uncaught type_error, initial_books)"
  by (simp add: deleteReview_def obj_get_def initial_books_def object_prototype_keys_def)

text \<open>
  C4. The claim: when the ISBN is in the catalogue and the book's reviews have no entry
  for the user name, \<open>deleteReview\<close> fails with the review-not-found error. The user name
  \<open>constructor\<close> has the shape the validator accepts and book 1 of the seed catalogue
  has no review of it, yet \<open>reviews[username]\<close> finds the inherited property, which is
  truthy: the promise resolves and the route answers 200, "Review deleted successfully".
\<close>

theorem deleteReview_inherited_username:
  "isValidUsername e (JStr ''constructor'') = Some True
   \<and> map_of initial_books ''1'' = Some book1
   \<and> map_of (reviews book1) ''constructor'' = None
   \<and> deleteReview initial_books ''1'' ''constructor'' = (Resolved book1, initial_books)
   \<and> delete_review e initial_books (session_of ''constructor'' t) ''1'' =
       (Reply 200 (JObj
          [(''success'', JBool True),
           (''message'', JStr ''Review deleted successfully''),
           (''data'', JObj
              [(''isbn'', JStr ''1''), (''username'', JStr ''constructor''),
               (''deletedAt'', JStr (now_iso e))])]), initial_books)"
  by (simp add: isValidUsername_def usernameRegex_def isWordChar_def delete_review_def
      deleteReview_def obj_get_def
      obj_delete_def object_prototype_keys_def initial_books_def book1_def mk_book_def
      session_of_def Let_def)

text \<open>
  C9. When the ISBN is in the catalogue and the book's reviews bind the user name to the
  empty string, \<open>deleteReview\<close> rejects with the review-not-found error and the catalogue,
  with that entry, stays as it was.
\<close>

theorem deleteReview_empty_text:
  assumes "map_of bs isbn = Some b" and "map_of (reviews b) u = Some []"
  shows "deleteReview bs isbn u = (Rejected (no_review_found u), bs)"
  using assms by (simp add: deleteReview_def obj_get_def)

theorem deleteReview_empty_text_witness:
  "map_of blank_review_books ''1'' = Some (book1\<lparr>reviews := [(''alice'', [])]\<rparr>)
   \<and> map_of (reviews (book1\<lparr>reviews := [(''alice'', [])]\<rparr>)) ''alice'' = Some []
   \<and> deleteReview blank_review_books ''1'' ''alice''
       = (Rejected ''No review found for user alice'', blank_review_books)"
proof -
  have 1: "map_of blank_review_books ''1'' = Some (book1\<lparr>reviews := [(''alice'', [])]\<rparr>)"
    by (simp add: blank_review_books_def)
  have 2: "map_of (reviews (book1\<lparr>reviews := [(''alice'', [])]\<rparr>)) ''alice'' = Some []"
    by simp
  from deleteReview_empty_text [OF 1 2] 1 2 show ?thesis
    by (simp add: no_review_found_def)
qed

text \<open>
  Whenever the string of the acting user's name is not \<open>__proto__\<close>, a successful PUT
  reports the action "added": the comparison is made after the write, with the text
  just written.
\<close>

lemma put_review_action:
  assumes "map_of bs isbn = Some b" and "to_string e (auth_username a) = Some uname"
    and "uname \<noteq> ''__proto__''"
    and "body_review bd = JStr review" and "trim review \<noteq> []" and "length review \<le> 1000"
  shows "fst (put_review e bs a isbn bd) =
     Reply 200 (JObj
        [(''success'', JBool True),
         (''message'', JStr ''Review added successfully''),
         (''data'', JObj
            [(''isbn'', JStr isbn), (''username'', auth_username a),
             (''review'', JStr (trim review)),
             (''timestamp'', JStr (now_iso e)),
             (''action'', JStr ''added'')])])"
proof -
  have "review \<noteq> []" using assms(5) by (auto simp: trim_def)
  then show ?thesis
    using assms by (simp add: put_review_def addReview_present Let_def obj_get_Own map_of_obj_set)
qed

text \<open>
  C7. The claim: a successful PUT answers with the action "updated" when the acting user
  had a review of the book already. Here alice reviews book 1 of the seed catalogue
  twice: the first answer says "added", and so does the second, which overwrote her
  first review.
\<close>

theorem put_review_second_time_added:
  "fst (put_review e initial_books (session_of ''alice'' t) ''1'' (review_body ''Good'')) =
     Reply 200 (JObj
        [(''success'', JBool True),
         (''message'', JStr ''Review added successfully''),
         (''data'', JObj
            [(''isbn'', JStr ''1''), (''username'', JStr ''alice''), (''review'', JStr ''Good''),
             (''timestamp'', JStr (now_iso e)), (''action'', JStr ''added'')])])
   \<and> getReviews
        (snd (put_review e initial_books (session_of ''alice'' t) ''1'' (review_body ''Good'')))
        ''1'' = Resolved (Some [(''alice'', ''Good'')])
   \<and> put_review e
        (snd (put_review e initial_books (session_of ''alice'' t) ''1'' (review_body ''Good'')))
        (session_of ''alice'' t) ''1'' (review_body ''Great'') =
       (Reply 200 (JObj
          [(''success'', JBool True),
           (''message'', JStr ''Review added successfully''),
           (''data'', JObj
              [(''isbn'', JStr ''1''), (''username'', JStr ''alice''), (''review'', JStr ''Great''),
               (''timestamp'', JStr (now_iso e)), (''action'', JStr ''added'')])]),
        AList.update ''1'' (book1\<lparr>reviews := [(''alice'', ''Great'')]\<rparr>) initial_books)"
  by (simp add: put_review_def addReview_def getReviews_def obj_get_def obj_set_def
      initial_books_def book1_def mk_book_def session_of_def review_body_def trim_def
      isWhiteSpace_def Let_def)

section \<open>The chain of layers\<close>

lemma run_auth_layer:
  "under_auth (path rq) \<Longrightarrow>
   dispatch e st sess rq =
     (case authMiddleware e sess of
        Respond out \<Rightarrow> (out, st, sess)
      | Next decoded \<Rightarrow>
          run_layers [customer_layer, general_layer, catch_all_layer, app_health_layer]
            e st sess rq)"
  by (simp add: dispatch_def app_layers_def auth_layer_def split: verdict.splits)



text \<open>What a request leaves behind is the state it found, or the state a handler made.\<close>

lemma dispatch_routes:
  assumes "dispatch e st sess rq = (out, st', sess')"
  shows "st' = st
     \<or> (\<exists>ep c rest. path rq = c # rest \<and> customerRoutes (req_method rq) rest = Some ep
           \<and> handle e st sess rq ep = (out, st', sess'))
     \<or> (\<exists>ep. generalRoutes (req_method rq) (path rq) = Some ep
           \<and> handle e st sess rq ep = (out, st', sess'))"
proof (cases "auth_layer e st sess rq")
  case (Some r)
  then show ?thesis
    using assms
    by (auto simp: dispatch_def app_layers_def auth_layer_def split: if_splits verdict.splits)
next
  case None
  note auth = this
  show ?thesis
  proof (cases "customer_layer e st sess rq")
    case (Some r)
    then show ?thesis
      using assms auth
      by (auto simp: dispatch_def app_layers_def customer_layer_def split: list.splits if_splits)
  next
    case None
    then show ?thesis
      using assms auth
      by (cases "general_layer e st sess rq")
        (auto simp: dispatch_def app_layers_def general_layer_def catch_all_layer_def)
  qed
qed

subsection \<open>The user store\<close>

lemma isValidUsername_JStr: "isValidUsername e (JStr u) = Some (usernameRegex u)"
  by (simp add: isValidUsername_def)

lemma validatePassword_JStr:
  "validatePassword e (JStr p) =
     Some (if length p < 6
           then \<lparr>success = False,
                 message = Some ''Password must be at least 6 characters long''\<rparr>
           else if length p > 100
           then \<lparr>success = False,
                 message = Some ''Password must be less than 100 characters''\<rparr>
           else \<lparr>success = True, message = None\<rparr>)"
  by (simp add: validatePassword_def)

lemma strict_eq_JStr: "strict_eq x (JStr u) \<longleftrightarrow> x = JStr u"
  by (auto simp: strict_eq_def)

lemma strict_eq_imp_eq: "strict_eq x y \<Longrightarrow> primitive y \<and> x = y"
  by (auto simp: strict_eq_def)

lemma valid_username_nonempty: "isValidUsername e (JStr u) = Some True \<Longrightarrow> u \<noteq> []"
  by (auto simp: isValidUsername_JStr usernameRegex_def)

lemma valid_password_nonempty:
  "map_option success (validatePassword e (JStr p)) = Some True \<Longrightarrow> p \<noteq> []"
  by (auto simp: validatePassword_JStr)

lemma valid_password_success:
  "map_option success (validatePassword e (JStr p)) = Some True \<Longrightarrow>
   validatePassword e (JStr p) = Some \<lparr>success = True, message = None\<rparr>"
  by (auto simp: validatePassword_JStr split: if_splits)









subsection \<open>The catalogue\<close>

lemma update_without_reviews:
  "map_of bs k = Some b \<Longrightarrow>
   without_reviews (AList.update k (b\<lparr>reviews := r\<rparr>) bs) = without_reviews bs"
  by (induction bs) (auto simp: without_reviews_def)

lemma addReview_frame:
  "addReview bs isbn u t = (res, bs') \<Longrightarrow> without_reviews bs' = without_reviews bs"
  by (auto simp: addReview_def obj_get_def Let_def update_without_reviews
      split: option.splits if_splits)

lemma deleteReview_frame:
  "deleteReview bs isbn u = (res, bs') \<Longrightarrow> without_reviews bs' = without_reviews bs"
  by (auto simp: deleteReview_def obj_get_def Let_def update_without_reviews
      split: option.splits if_splits)

lemma put_review_frame:
  "put_review e bs a isbn bd = (out, bs') \<Longrightarrow> without_reviews bs' = without_reviews bs"
  by (auto simp: put_review_def Let_def
      split: option.splits if_splits prod.splits settled.splits json.splits lookup.splits
      dest: addReview_frame)

lemma delete_review_frame:
  "delete_review e bs a isbn = (out, bs') \<Longrightarrow> without_reviews bs' = without_reviews bs"
  by (auto simp: delete_review_def Let_def
      split: option.splits prod.splits settled.splits lookup.splits
      dest: deleteReview_frame)

lemma handle_frame:
  assumes "handle e st sess rq ep = (out, st', sess')"
  shows "without_reviews (books st') = without_reviews (books st)"
  using assms
  by (cases ep)
    (auto simp: handle_def split: option.splits prod.splits
      dest: put_review_frame delete_review_frame)

text \<open>Books are never added or removed, and only their reviews change.\<close>

lemma reachable_frame: "reachable st \<Longrightarrow> without_reviews (books st) = initial_books"
proof (induction rule: reachable.induct)
  case start
  then show ?case
    by (simp add: initial_server_def initial_books_def without_reviews_def mk_book_def)
next
  case (request st e sess rq out st' sess')
  from dispatch_routes[OF request.hyps(2)] show ?case
    using request.IH by (auto dest: handle_frame)
qed

lemma without_reviews_keys: "map fst (without_reviews bs) = map fst bs"
  by (induction bs) (auto simp: without_reviews_def)

lemma initial_keys:
  "distinct (map fst initial_books)" "''__proto__'' \<notin> fst ` set initial_books"
  by (simp_all add: initial_books_def)

lemma reachable_keys:
  assumes "reachable st"
  shows "distinct (map fst (books st))" and "''__proto__'' \<notin> fst ` set (books st)"
proof -
  have k: "map fst (books st) = map fst initial_books"
    using reachable_frame[OF assms] without_reviews_keys[of "books st"] by simp
  show "distinct (map fst (books st))"
    unfolding k by (rule initial_keys(1))
  have "set (map fst (books st)) = set (map fst initial_books)"
    using k by simp
  then have "fst ` set (books st) = fst ` set initial_books" by simp
  then show "''__proto__'' \<notin> fst ` set (books st)"
    using initial_keys(2) by simp
qed

lemma search_loop_filter:
  assumes "distinct (map fst (acc @ bs))" and "''__proto__'' \<notin> fst ` set bs"
  shows "search_loop sel bs s acc =
     acc @ filter (\<lambda>(k, b). str_includes (toLowerCase (sel b)) (toLowerCase s)) bs"
  using assms
proof (induction bs arbitrary: acc)
  case Nil
  then show ?case by simp
next
  case (Cons kb bs)
  obtain k b where kb: "kb = (k, b)" by (cases kb)
  have k: "k \<noteq> ''__proto__''" "k \<notin> fst ` set acc" using Cons.prems kb by auto
  show ?case
  proof (cases "str_includes (toLowerCase (sel b)) (toLowerCase s)")
    case True
    have "obj_set acc k b = acc @ [(k, b)]"
      using k by (simp add: obj_set_def update_absent)
    moreover have "distinct (map fst ((acc @ [(k, b)]) @ bs))" using Cons.prems kb by auto
    ultimately show ?thesis
      using Cons.IH[of "acc @ [(k, b)]"] Cons.prems True kb by simp
  next
    case False
    moreover have "distinct (map fst (acc @ bs))" using Cons.prems kb by auto
    ultimately show ?thesis using Cons.IH[of acc] Cons.prems kb by simp
  qed
qed

lemma searchByAuthor_filter:
  assumes "distinct (map fst bs)" and "''__proto__'' \<notin> fst ` set bs"
  shows "searchByAuthor bs s = filter (\<lambda>(k, b). contains_ignoring_case (author b) s) bs"
  using search_loop_filter[of "[]" bs author s] assms
  by (simp add: searchByAuthor_def includes_lower_iff)

section \<open>Properties of the routes\<close>

text \<open>
  C1. For every request whose path lies under \<open>/customer/auth/\<close>: without an authorization
  entry in the session the answer is 401 with the error "No active session"; with an
  entry whose token does not verify the answer is 403, with the error "Token expired"
  when verification fails with \<open>TokenExpiredError\<close> and "Invalid token" for any other
  failure. In both cases the answer is the middleware's, and the server and the session are
  as they were: no handler has run. The middleware lets the request through to the routers
  exactly when the session has an entry whose token verifies.
\<close>

theorem authMiddleware_guards_prefix:
  assumes "under_auth (path rq)"
  shows "(sess = None \<longrightarrow>
            dispatch e st sess rq =
              (Reply 401 (JObj
                 [(''success'', JBool False),
                  (''message'', JStr ''Authentication required. Please log in.''),
                  (''error'', JStr ''No active session'')]), st, sess))
       \<and> (\<forall>a name. sess = Some a \<and> jwt_verify e (accessToken a) (jwt_secret e) = Inl name \<longrightarrow>
            dispatch e st sess rq =
              (Reply 403 (JObj
                 [(''success'', JBool False),
                  (''message'', JStr ''Authentication failed. Please log in again.''),
                  (''error'', JStr (if name = ''TokenExpiredError'' then ''Token expired''
                                   else ''Invalid token''))]), st, sess))
       \<and> (\<forall>a decoded. sess = Some a \<and> jwt_verify e (accessToken a) (jwt_secret e) = Inr decoded \<longrightarrow>
            dispatch e st sess rq =
              run_layers [customer_layer, general_layer, catch_all_layer, app_health_layer]
                e st sess rq)
       \<and> ((auth_layer e st sess rq = None)
            = (\<exists>a decoded. sess = Some a
                 \<and> jwt_verify e (accessToken a) (jwt_secret e) = Inr decoded))"
  using assms
  by (auto simp: run_auth_layer authMiddleware_def auth_layer_def split: option.splits sum.splits)

theorem authMiddleware_guards_prefix_witness:
  "under_auth (path profile_request)
   \<and> dispatch example_env initial_server None profile_request =
       (Reply 401 (JObj
          [(''success'', JBool False),
           (''message'', JStr ''Authentication required. Please log in.''),
           (''error'', JStr ''No active session'')]), initial_server, None)
   \<and> dispatch example_env initial_server (Some (session_of ''alice'' ''old'')) profile_request =
       (Reply 403 (JObj
          [(''success'', JBool False),
           (''message'', JStr ''Authentication failed. Please log in again.''),
           (''error'', JStr ''Token expired'')]),
        initial_server, Some (session_of ''alice'' ''old''))
   \<and> dispatch example_env initial_server (Some (session_of ''alice'' ''forged'')) profile_request =
       (Reply 403 (JObj
          [(''success'', JBool False),
           (''message'', JStr ''Authentication failed. Please log in again.''),
           (''error'', JStr ''Invalid token'')]),
        initial_server, Some (session_of ''alice'' ''forged''))
   \<and> auth_layer example_env initial_server (Some (session_of ''alice'' ''good'')) profile_request
       = None"
proof -
  have h: "under_auth (path profile_request)"
    by (simp add: under_auth_def profile_request_def seg_simps)
  have old: "jwt_verify example_env (accessToken (session_of ''alice'' ''old''))
      (jwt_secret example_env) = Inl ''TokenExpiredError''"
    by (simp add: example_env_def session_of_def)
  have forged: "jwt_verify example_env (accessToken (session_of ''alice'' ''forged''))
      (jwt_secret example_env) = Inl ''JsonWebTokenError''"
    by (simp add: example_env_def session_of_def)
  have good: "jwt_verify example_env (accessToken (session_of ''alice'' ''good''))
      (jwt_secret example_env) = Inr (JObj [(''username'', JStr ''alice'')])"
    by (simp add: example_env_def session_of_def)
  note g = authMiddleware_guards_prefix [OF h]
  have 1: "dispatch example_env initial_server None profile_request =
       (Reply 401 (JObj
          [(''success'', JBool False),
           (''message'', JStr ''Authentication required. Please log in.''),
           (''error'', JStr ''No active session'')]), initial_server, None)"
    using g [where sess = None] by simp
  have 2: "dispatch example_env initial_server (Some (session_of ''alice'' ''old'')) profile_request =
       (Reply 403 (JObj
          [(''success'', JBool False),
           (''message'', JStr ''Authentication failed. Please log in again.''),
           (''error'', JStr ''Token expired'')]),
        initial_server, Some (session_of ''alice'' ''old''))"
    using g [where sess = "Some (session_of ''alice'' ''old'')" and e = example_env] old by simp
  have 3: "dispatch example_env initial_server (Some (session_of ''alice'' ''forged''))
        profile_request =
       (Reply 403 (JObj
          [(''success'', JBool False),
           (''message'', JStr ''Authentication failed. Please log in again.''),
           (''error'', JStr ''Invalid token'')]),
        initial_server, Some (session_of ''alice'' ''forged''))"
    using g [where sess = "Some (session_of ''alice'' ''forged'')" and e = example_env] forged
    by simp
  have 4: "auth_layer example_env initial_server (Some (session_of ''alice'' ''good''))
        profile_request = None"
    using g [where sess = "Some (session_of ''alice'' ''good'')" and e = example_env] good
    by simp
  from h 1 2 3 4 show ?thesis by simp
qed

text \<open>
  C2. For every string of the accepted shape as user name and every string of the
  accepted length as password: if no stored user has that name, registration answers
  201 and stores the user, and \<open>authenticateUser\<close> with the same name and password is
  then true.
\<close>

theorem register_then_authenticate:
  assumes "isValidUsername e (JStr u) = Some True"
    and "map_option success (validatePassword e (JStr p)) = Some True"
    and "\<not> list_ex (\<lambda>x. username x = JStr u) us"
  shows "post_register e us
          \<lparr>body_username = JStr u, body_password = JStr p, body_review = r\<rparr> =
      (Reply 201 (JObj
         [(''success'', JBool True),
          (''message'', JStr ''User registered successfully''),
          (''data'', JObj [(''username'', JStr u), (''registeredAt'', JStr (now_iso e))])]),
       us @ [\<lparr>username = JStr u, password = JStr p, registeredAt = now_iso e\<rparr>])
     \<and> authenticateUser
          (snd (post_register e us
                  \<lparr>body_username = JStr u, body_password = JStr p, body_review = r\<rparr>))
          (JStr u) (JStr p)"
  using assms valid_username_nonempty[of e u] valid_password_nonempty[of e p]
    valid_password_success[of e p]
  by (simp add: post_register_def Let_def authenticateUser_def strict_eq_JStr)

theorem register_then_authenticate_witness:
  "isValidUsername example_env (JStr ''alice'') = Some True
   \<and> map_option success (validatePassword example_env (JStr ''secret1'')) = Some True
   \<and> \<not> list_ex (\<lambda>x. username x = JStr ''alice'') []
   \<and> post_register example_env [] (body register_request) =
       (Reply 201 (JObj
          [(''success'', JBool True),
           (''message'', JStr ''User registered successfully''),
           (''data'', JObj [(''username'', JStr ''alice''),
                            (''registeredAt'', JStr ''2026-01-01T00:00:00.000Z'')])]),
        users registered_server)
   \<and> authenticateUser (snd (post_register example_env [] (body register_request)))
        (JStr ''alice'') (JStr ''secret1'')"
proof -
  have 1: "isValidUsername example_env (JStr ''alice'') = Some True"
    by (simp add: isValidUsername_JStr usernameRegex_def isWordChar_def)
  have 2: "map_option success (validatePassword example_env (JStr ''secret1'')) = Some True"
    by (simp add: validatePassword_JStr)
  have 3: "\<not> list_ex (\<lambda>x. username x = JStr ''alice'') []" by simp
  note t = register_then_authenticate [OF 1 2 3, of JUndefined]
  have 4: "post_register example_env [] (body register_request) =
       (Reply 201 (JObj
          [(''success'', JBool True),
           (''message'', JStr ''User registered successfully''),
           (''data'', JObj [(''username'', JStr ''alice''),
                            (''registeredAt'', JStr ''2026-01-01T00:00:00.000Z'')])]),
        users registered_server)"
    using t [THEN conjunct1]
    by (simp add: register_request_def registered_server_def example_env_def)
  have 5: "authenticateUser (snd (post_register example_env [] (body register_request)))
        (JStr ''alice'') (JStr ''secret1'')"
    using t [THEN conjunct2] by (simp add: register_request_def)
  from 1 2 3 4 5 show ?thesis by blast
qed




text \<open>
  C6. In every state the server can reach and for every search string, \<open>searchByAuthor\<close>
  returns exactly the entries of the catalogue whose author contains the string up to
  case, in the order of the catalogue; when no author does, the result is the empty
  object. On the seed catalogue the search for "achebe" returns the one entry with
  ISBN 1, author "Chinua Achebe" and title "Things Fall Apart".
\<close>

theorem searchByAuthor_exact:
  "(reachable st \<longrightarrow>
      searchByAuthor (books st) s =
        filter (\<lambda>(isbn, b). contains_ignoring_case (author b) s) (books st))
   \<and> (reachable st \<and> \<not> list_ex (\<lambda>(isbn, b). contains_ignoring_case (author b) s) (books st) \<longrightarrow>
        searchByAuthor (books st) s = [])
   \<and> searchByAuthor initial_books ''achebe'' =
       [(''1'', mk_book ''Chinua Achebe'' ''Things Fall Apart''
                  [''Fiction'', ''Historical''] 1958 4.5)]"
proof (intro conjI impI)
  assume r: "reachable st"
  show "searchByAuthor (books st) s =
        filter (\<lambda>(isbn, b). contains_ignoring_case (author b) s) (books st)"
    using reachable_keys [OF r] by (rule searchByAuthor_filter)
next
  assume "reachable st \<and> \<not> list_ex (\<lambda>(isbn, b). contains_ignoring_case (author b) s) (books st)"
  then have r: "reachable st"
    and n: "\<forall>x\<in>set (books st). \<not> (case x of (isbn, b) \<Rightarrow> contains_ignoring_case (author b) s)"
    by (simp_all add: list_ex_iff)
  have "searchByAuthor (books st) s =
        filter (\<lambda>(isbn, b). contains_ignoring_case (author b) s) (books st)"
    using reachable_keys [OF r] by (rule searchByAuthor_filter)
  also have "\<dots> = []" using n by (simp add: filter_empty_conv)
  finally show "searchByAuthor (books st) s = []" .
next
  show "searchByAuthor initial_books ''achebe'' =
       [(''1'', mk_book ''Chinua Achebe'' ''Things Fall Apart''
                  [''Fiction'', ''Historical''] 1958 4.5)]"
    by (simp add: searchByAuthor_def initial_books_def mk_book_def toLowerCase_def isUpper_def
        obj_set_def)
qed

theorem searchByAuthor_exact_witness:
  "reachable initial_server
   \<and> searchByAuthor (books initial_server) ''Unknown'' =
       filter (\<lambda>(isbn, b). contains_ignoring_case (author b) ''Unknown'') (books initial_server)
   \<and> \<not> list_ex (\<lambda>(isbn, b). contains_ignoring_case (author b) ''tolkien'')
         (books initial_server)
   \<and> searchByAuthor (books initial_server) ''tolkien'' = []"
proof -
  have r: "reachable initial_server" by (rule reachable.start)
  have n: "\<not> list_ex (\<lambda>(isbn, b). contains_ignoring_case (author b) ''tolkien'')
         (books initial_server)"
    by (simp add: includes_lower_iff [symmetric] initial_server_def initial_books_def
        mk_book_def toLowerCase_def isUpper_def)
  have 1: "searchByAuthor (books initial_server) ''Unknown'' =
       filter (\<lambda>(isbn, b). contains_ignoring_case (author b) ''Unknown'') (books initial_server)"
    using searchByAuthor_exact [where st = initial_server and s = "''Unknown''"] r by blast
  have 2: "searchByAuthor (books initial_server) ''tolkien'' = []"
    using searchByAuthor_exact [where st = initial_server and s = "''tolkien''"] r n by blast
  from r 1 n 2 show ?thesis by blast
qed

text \<open>
  C8. The claim: \<open>GET /health\<close> answers 200 with a body that has the uptime and a
  timestamp. The request needs no session and always gets 200 with a timestamp, but from
  the route of the public router, whose body has no uptime: the route of index.js that
  reports the uptime is registered after the public router and after the catch-all, and
  no request reaches it.
\<close>

theorem health_without_uptime:
  "dispatch e st sess \<lparr>req_method = GET, path = [''health''], body = bd\<rparr> =
     (Reply 200 (JObj
        [(''success'', JBool True), (''message'', JStr ''Service is healthy''),
         (''timestamp'', JStr (now_iso e)), (''service'', JStr ''Book Review API''),
         (''version'', JStr ''1.0.0'')]), st, sess)
   \<and> has_field ''timestamp''
        (reply_body (fst (dispatch e st sess \<lparr>req_method = GET, path = [''health''], body = bd\<rparr>)))
   \<and> has_field ''uptime''
        (reply_body (fst (dispatch e st sess \<lparr>req_method = GET, path = [''health''], body = bd\<rparr>)))
       = False
   \<and> has_field ''uptime'' (reply_body (app_health e))
   \<and> run_layers [app_health_layer] e st sess \<lparr>req_method = GET, path = [''health''], body = bd\<rparr>
       = (app_health e, st, sess)"
  by (simp add: dispatch_def app_layers_def auth_layer_def under_auth_def customer_layer_def
      general_layer_def app_health_layer_def seg_def toLowerCase_def isUpper_def handle_def
      public_health_def app_health_def)

text \<open>
  C10. Once the authentication middleware has let the request through, \<open>GET /customer/auth/profile\<close> always
  answers 200 with the user name of the session and, as \<open>lastLogin\<close>, the session's
  \<open>loggedInAt\<close>; when the user store has no user of that name, \<open>registeredAt\<close> is the
  string "Unknown". Neither the server nor the session changes.
\<close>

theorem profile_never_fails:
  assumes "sess = Some a" and "jwt_verify e (accessToken a) (jwt_secret e) = Inr decoded"
  shows "\<exists>r. dispatch e st sess
            \<lparr>req_method = GET, path = [''customer'', ''auth'', ''profile''], body = bd\<rparr> =
          (Reply 200 (JObj
             [(''success'', JBool True),
              (''data'', JObj
                 [(''username'', auth_username a),
                  (''registeredAt'', JStr r),
                  (''lastLogin'', JStr (loggedInAt a))])]), st, sess)
     \<and> (\<not> list_ex (\<lambda>u. username u = auth_username a) (users st) \<longrightarrow> r = ''Unknown'')"
proof -
  have "find (\<lambda>u. strict_eq (username u) (auth_username a)) (users st) = None"
    if "\<not> list_ex (\<lambda>u. username u = auth_username a) (users st)"
    using that by (auto simp: find_None_iff list_ex_iff strict_eq_def)
  then show ?thesis
    using assms
    by (auto simp: run_auth_layer under_auth_def seg_simps authMiddleware_def customer_layer_def
        handle_def get_profile_def Let_def split: option.splits)
qed

theorem profile_never_fails_witness:
  "jwt_verify example_env (accessToken (session_of ''alice'' ''good'')) (jwt_secret example_env)
     = Inr (JObj [(''username'', JStr ''alice'')])
   \<and> \<not> list_ex (\<lambda>u. username u = JStr ''alice'') (users initial_server)
   \<and> dispatch example_env initial_server (Some (session_of ''alice'' ''good'')) profile_request =
       (Reply 200 (JObj
          [(''success'', JBool True),
           (''data'', JObj
              [(''username'', JStr ''alice''),
               (''registeredAt'', JStr ''Unknown''),
               (''lastLogin'', JStr ''2026-01-01T00:00:00.000Z'')])]),
        initial_server, Some (session_of ''alice'' ''good''))"
proof -
  have v: "jwt_verify example_env (accessToken (session_of ''alice'' ''good''))
      (jwt_secret example_env) = Inr (JObj [(''username'', JStr ''alice'')])"
    by (simp add: example_env_def session_of_def)
  have n: "\<not> list_ex (\<lambda>u. username u = JStr ''alice'') (users initial_server)"
    by (simp add: initial_server_def)
  have n': "\<not> list_ex (\<lambda>u. username u = auth_username (session_of ''alice'' ''good''))
      (users initial_server)"
    using n by (simp add: session_of_def)
  from profile_never_fails [OF refl v, of initial_server no_body] n'
  have "dispatch example_env initial_server (Some (session_of ''alice'' ''good''))
          \<lparr>req_method = GET, path = [''customer'', ''auth'', ''profile''], body = no_body\<rparr> =
        (Reply 200 (JObj
           [(''success'', JBool True),
            (''data'', JObj
               [(''username'', auth_username (session_of ''alice'' ''good'')),
                (''registeredAt'', JStr ''Unknown''),
                (''lastLogin'', JStr (loggedInAt (session_of ''alice'' ''good'')))])]),
         initial_server, Some (session_of ''alice'' ''good''))"
    by auto
  then have "dispatch example_env initial_server (Some (session_of ''alice'' ''good''))
        profile_request =
       (Reply 200 (JObj
          [(''success'', JBool True),
           (''data'', JObj
              [(''username'', JStr ''alice''),
               (''registeredAt'', JStr ''Unknown''),
               (''lastLogin'', JStr ''2026-01-01T00:00:00.000Z'')])]),
        initial_server, Some (session_of ''alice'' ''good''))"
    by (simp add: profile_request_def session_of_def)
  with v n show ?thesis by blast
qed

section \<open>Whole sessions with the names of \<open>Object.prototype\<close>\<close>

text \<open>
  The user names \<open>__proto__\<close> and \<open>constructor\<close> go through registration and login like
  any other. Logged in, the user \<open>__proto__\<close> reviews book 1: the answer is 200 with the
  action "updated" and the server is as before, without the review. Logged in, the user
  \<open>constructor\<close> deletes a review of book 1 that was never written: the answer is 200.
  A logged-in user who deletes a review of the ISBN \<open>constructor\<close> ends the process.
\<close>

lemmas route_defs =
  dispatch_def app_layers_def auth_layer_def under_auth_def customer_layer_def
  general_layer_def catch_all_layer_def seg_def toLowerCase_def isUpper_def handle_def

lemmas example_defs =
  example_env_def session_of_def credentials_def register_as_def login_as_def
  put_request_def delete_request_def server_with_def review_body_def no_body_def
  initial_server_def

lemma inherited_name_registers:
  "n = ''__proto__'' \<or> n = ''constructor'' \<Longrightarrow>
   fst (snd (dispatch example_env initial_server None (register_as n))) = server_with n"
  by (auto simp: route_defs example_defs post_register_def Let_def isValidUsername_def
      usernameRegex_def isWordChar_def validatePassword_def strict_eq_def)

lemma inherited_name_logs_in:
  "n = ''__proto__'' \<or> n = ''constructor'' \<Longrightarrow>
   snd (snd (dispatch example_env (server_with n) None (login_as n)))
     = Some (session_of n ''good'')"
  by (auto simp: route_defs example_defs post_login_def isValidUsername_def usernameRegex_def
      isWordChar_def authenticateUser_def strict_eq_def Let_def jwt_secret_def)

lemma proto_user_review_is_lost:
  "dispatch example_env (server_with ''__proto__'') (Some (session_of ''__proto__'' ''good''))
     (put_request ''1'' ''Great book'') =
   (Reply 200 (JObj
      [(''success'', JBool True),
       (''message'', JStr ''Review updated successfully''),
       (''data'', JObj
          [(''isbn'', JStr ''1''), (''username'', JStr ''__proto__''),
           (''review'', JStr ''Great book''),
           (''timestamp'', JStr ''2026-01-01T00:00:00.000Z''),
           (''action'', JStr ''updated'')])]),
    server_with ''__proto__'', Some (session_of ''__proto__'' ''good''))"
  by (simp add: route_defs example_defs authMiddleware_def jwt_secret_def put_review_def
      addReview_def obj_get_def obj_set_def initial_books_def mk_book_def trim_def
      isWhiteSpace_def Let_def)

lemma constructor_user_deletes_nothing:
  "dispatch example_env (server_with ''constructor'')
     (Some (session_of ''constructor'' ''good'')) (delete_request ''1'') =
   (Reply 200 (JObj
      [(''success'', JBool True),
       (''message'', JStr ''Review deleted successfully''),
       (''data'', JObj
          [(''isbn'', JStr ''1''), (''username'', JStr ''constructor''),
           (''deletedAt'', JStr ''2026-01-01T00:00:00.000Z'')])]),
    server_with ''constructor'', Some (session_of ''constructor'' ''good''))"
  by (simp add: route_defs example_defs authMiddleware_def jwt_secret_def delete_review_def
      deleteReview_def obj_get_def obj_delete_def object_prototype_keys_def initial_books_def
      mk_book_def Let_def)

lemma constructor_isbn_ends_process:
  "fst (dispatch example_env (server_with ''alice'') (Some (session_of ''alice'' ''good''))
     (delete_request ''constructor'')) = ProcessExit type_error"
  by (simp add: route_defs example_defs authMiddleware_def jwt_secret_def delete_review_def
      deleteReview_def obj_get_def obj_delete_def object_prototype_keys_def initial_books_def
      mk_book_def Let_def)

end
